theory Spec2Isabelle
  imports Complex_Main
begin

section \<open>Data model\<close>

text \<open>
  The entities are the rows of \<^verbatim>\<open>src/models\<close> (Hotel, Booking, User). Integer columns
  and validated integer inputs are \<open>int\<close>. A price is a \<open>rat\<close>, the value of the decimal
  or of the double at hand; the products the handlers compute are JavaScript's, a
  parameter of the model (\<open>js_times\<close>), so nothing here rests on doubles multiplying
  exactly. A \<^verbatim>\<open>Date\<close> is its time value \<^verbatim>\<open>getTime()\<close>, in milliseconds, as \<open>int\<close>; a
  \<^verbatim>\<open>DATEONLY\<close> column keeps the calendar day of what is written, and is held here as
  the time value \<^verbatim>\<open>new Date\<close> gives for the stored day (\<open>dateOnly\<close>).

  The object-relational mapper is modelled as a store: \<^verbatim>\<open>findByPk\<close> and \<^verbatim>\<open>findOne\<close> are
  lookups, \<^verbatim>\<open>create\<close> and \<^verbatim>\<open>update\<close> validate and then write. The validators are the
  ones declared with the models in \<^verbatim>\<open>src/models\<close>; the mapper runs them on the fields
  being written, before the \<^verbatim>\<open>beforeCreate\<close> hook, and a refusal is an exception, which
  the handlers answer with 500. A query that selects an attribute the model does not
  declare is an exception as well. What the database does beyond that (rounding to
  the column's scale, collations, constraints, failures of the driver) is not modelled.
  Handlers run one at a time, each to completion.
\<close>

datatype role = Customer | Employee | Admin

datatype booking_status = Pending | Confirmed | Cancelled | Completed

datatype payment_status = PaymentPending | Paid | Failed | Refunded

text \<open>Hotel (\<^verbatim>\<open>HotelAttributes\<close>); the descriptive columns no handler below reads are left out.\<close>

record hotel =
  hotel_id :: int
  hotel_name :: string
  city :: string
  country :: string
  starRating :: int
  pricePerNight :: rat
  hotel_currency :: string
  isActive :: bool
  totalRooms :: int
  availableRooms :: int

text \<open>
  Booking (\<^verbatim>\<open>BookingAttributes\<close>). The reference is optional in the record because an
  instance may lack it before it is validated; the column does not admit that
  (\<^verbatim>\<open>allowNull: false\<close>).
\<close>

record booking =
  booking_id :: int
  userId :: int
  hotelId :: int
  checkInDate :: int
  checkOutDate :: int
  numberOfGuests :: int
  numberOfRooms :: int
  totalPrice :: rat
  currency :: string
  status :: booking_status
  paymentStatus :: payment_status
  paymentMethod :: "string option"
  specialRequests :: "string option"
  guestNames :: "string list option"
  contactEmail :: string
  contactPhone :: "string option"
  bookingReference :: "string option"
  cancellationReason :: "string option"
  cancellationDate :: "int option"

text \<open>User (\<^verbatim>\<open>UserAttributes\<close>), with the columns \<^verbatim>\<open>register\<close> writes.\<close>

record user =
  user_id :: int
  email :: string
  password :: string
  firstName :: string
  lastName :: string
  phone :: "string option"
  user_role :: role
  isVerified :: bool
  verificationToken :: "string option"

text \<open>
  \<^verbatim>\<open>JWTPayload\<close>, the decoded bearer token. The middleware \<^verbatim>\<open>authenticate\<close> stores it in
  \<^verbatim>\<open>ctx.user\<close> together with three flags computed from the role.
\<close>

record jwt_payload =
  jwt_userId :: int
  jwt_email :: string
  jwt_role :: role

definition isAdmin :: "jwt_payload \<Rightarrow> bool" where
  "isAdmin u \<longleftrightarrow> jwt_role u = Admin"

definition isEmployee :: "jwt_payload \<Rightarrow> bool" where
  "isEmployee u \<longleftrightarrow> jwt_role u = Employee"

definition isCustomer :: "jwt_payload \<Rightarrow> bool" where
  "isCustomer u \<longleftrightarrow> jwt_role u = Customer"

text \<open>
  The tables. Hotels and bookings are looked up by primary key only; users are searched
  by email, so that table is a list. The two counters are the auto-increment keys.
\<close>

record db =
  hotels :: "int \<rightharpoonup> hotel"
  bookings :: "int \<rightharpoonup> booking"
  users :: "user list"
  nextBookingId :: int
  nextUserId :: int

text \<open>
  What a handler reads from outside the request and the store: the clock (\<open>now\<close> is
  \<^verbatim>\<open>new Date()\<close>, \<open>today\<close> is local midnight of that day, \<open>startDay\<close> is the day the
  server loaded the Booking model, the comparison date of its \<^verbatim>\<open>isAfter\<close> validator),
  the process environment, and the library functions whose code is not part of the
  repository: what a \<^verbatim>\<open>DATEONLY\<close> column keeps of a date, JavaScript's product of two
  numbers, the email format (zod's and the mapper's are taken to be one predicate),
  bcrypt, jsonwebtoken, and the random strings of the booking reference and of the
  verification token.
\<close>

record env =
  now :: int
  today :: int
  startDay :: int
  dateOnly :: "int \<Rightarrow> int"
  js_times :: "rat \<Rightarrow> rat \<Rightarrow> rat"
  isEmail :: "string \<Rightarrow> bool"
  newBookingReference :: string
  EMPLOYEE_SIGNUP_CODE :: "string option"
  JWT_SECRET :: "string option"
  bcrypt_hash :: "string \<Rightarrow> string"
  jwt_sign :: "jwt_payload \<Rightarrow> string \<Rightarrow> string"
  newVerificationToken :: string

section \<open>Requests and responses\<close>

text \<open>
  A date field of a request body is a string; the handlers only use \<^verbatim>\<open>Date.parse\<close> of it,
  which is \<^verbatim>\<open>NaN\<close> or a time value.
\<close>

datatype date_string = InvalidDate | DateString int

record create_body =
  c_hotelId :: int
  c_checkInDate :: date_string
  c_checkOutDate :: date_string
  c_numberOfGuests :: int
  c_numberOfRooms :: int
  c_contactEmail :: string
  c_contactPhone :: "string option"
  c_specialRequests :: "string option"
  c_guestNames :: "string list option"

record update_body =
  u_checkInDate :: "date_string option"
  u_checkOutDate :: "date_string option"
  u_numberOfGuests :: "int option"
  u_numberOfRooms :: "int option"
  u_contactEmail :: "string option"
  u_contactPhone :: "string option"
  u_specialRequests :: "string option"
  u_guestNames :: "string list option"
  u_status :: "booking_status option"
  u_paymentStatus :: "payment_status option"
  u_totalPrice :: "rat option"


text \<open>The computed fields \<^verbatim>\<open>getBookingById\<close> adds to the row, and the two joined rows.\<close>

record booking_view =
  v_booking :: booking
  v_hotel :: "hotel option"
  v_user :: "user option"
  v_numberOfNights :: int
  v_isUpcoming :: bool
  v_isCurrentStay :: bool
  v_isPastStay :: bool
  v_canBeCancelled :: bool

text \<open>The user fields \<^verbatim>\<open>register\<close> returns.\<close>

record user_public =
  p_id :: int
  p_email :: string
  p_firstName :: string
  p_lastName :: string
  p_role :: role
  p_isVerified :: bool

text \<open>
  The JSON bodies the handlers build. \<open>Failure m\<close> is \<^verbatim>\<open>{success: false, message: m}\<close>
  (the list of zod issues of a validation failure is not kept), \<open>FailureRooms\<close> adds
  \<^verbatim>\<open>data: {requestedRooms, availableRooms}\<close>, \<open>FailureError\<close> adds the \<^verbatim>\<open>error\<close> code;
  the others are \<^verbatim>\<open>success: true\<close> with the message and the data shown.
\<close>

datatype body =
    Failure string
  | FailureRooms string int int
  | FailureError string string
  | Success string
  | SuccessCreated string booking "hotel option" int
  | SuccessBooking string booking_view
  | SuccessUpdated string booking
  | SuccessRegistered string user_public string bool

record response =
  res_status :: nat
  res_body :: body

definition respond :: "nat \<Rightarrow> body \<Rightarrow> response" where
  "respond c b = \<lparr>res_status = c, res_body = b\<rparr>"

text \<open>The booking row a body carries, if any.\<close>

fun body_booking :: "body \<Rightarrow> booking option" where
  "body_booking (SuccessCreated m b h n) = Some b"
| "body_booking (SuccessBooking m v) = Some (v_booking v)"
| "body_booking (SuccessUpdated m b) = Some b"
| "body_booking (Failure m) = None"
| "body_booking (FailureRooms m r a) = None"
| "body_booking (FailureError m c) = None"
| "body_booking (Success m) = None"
| "body_booking (SuccessRegistered m u t n) = None"

text \<open>The night count a body carries, if any.\<close>

fun body_nights :: "body \<Rightarrow> int option" where
  "body_nights (SuccessCreated m b h n) = Some n"
| "body_nights (SuccessBooking m v) = Some (v_numberOfNights v)"
| "body_nights (SuccessUpdated m b) = None"
| "body_nights (Failure m) = None"
| "body_nights (FailureRooms m r a) = None"
| "body_nights (FailureError m c) = None"
| "body_nights (Success m) = None"
| "body_nights (SuccessRegistered m u t n) = None"

section \<open>Booking model methods\<close>

definition oneDay :: int where
  "oneDay = 24 * 60 * 60 * 1000"

text \<open>\<^verbatim>\<open>Math.round\<close> rounds a half up.\<close>

definition Math_round :: "rat \<Rightarrow> int" where
  "Math_round x = \<lfloor>x + 1 / 2\<rfloor>"

text \<open>
  \<^verbatim>\<open>getNumberOfNights\<close> calls \<^verbatim>\<open>getTime()\<close> on the two date columns. They are
  \<^verbatim>\<open>DATEONLY\<close>, which a row read from the store carries as the string of the day, and a
  string has no \<^verbatim>\<open>getTime\<close>: the call throws (\<open>None\<close>).
\<close>

definition getTime :: "int \<Rightarrow> int option" where
  "getTime day_string = None"

definition getNumberOfNights :: "booking \<Rightarrow> int option" where
  "getNumberOfNights b =
     (case (getTime (checkOutDate b), getTime (checkInDate b)) of
        (Some checkOut, Some checkIn) \<Rightarrow>
          Some (Math_round (of_int (checkOut - checkIn) / of_int oneDay))
      | _ \<Rightarrow> None)"

definition canBeCancelled :: "booking \<Rightarrow> bool" where
  "canBeCancelled b \<longleftrightarrow> status b = Confirmed \<or> status b = Pending"

text \<open>
  The three comparisons with the clock, on time values as the declared types have it.
  \<^verbatim>\<open>getBookingById\<close> asks for them after the night count, so it never gets to them.
\<close>

definition isUpcoming :: "env \<Rightarrow> booking \<Rightarrow> bool" where
  "isUpcoming e b \<longleftrightarrow> checkInDate b > now e"

definition isCurrentStay :: "env \<Rightarrow> booking \<Rightarrow> bool" where
  "isCurrentStay e b \<longleftrightarrow> checkInDate b \<le> now e \<and> checkOutDate b > now e"

definition isPastStay :: "env \<Rightarrow> booking \<Rightarrow> bool" where
  "isPastStay e b \<longleftrightarrow> checkOutDate b < now e"

section \<open>Validation schemas\<close>

definition max_length :: "nat \<Rightarrow> 'a list option \<Rightarrow> bool" where
  "max_length n x = (case x of None \<Rightarrow> True | Some s \<Rightarrow> length s \<le> n)"

definition in_range :: "int \<Rightarrow> int \<Rightarrow> int option \<Rightarrow> bool" where
  "in_range lo hi x = (case x of None \<Rightarrow> True | Some n \<Rightarrow> lo \<le> n \<and> n \<le> hi)"

text \<open>
  \<^verbatim>\<open>createBookingSchema.parse\<close>: the two parsed dates when the body passes, \<open>None\<close> when
  zod throws. \<open>today e\<close> is local midnight of the current day.
\<close>

definition createBookingSchema :: "env \<Rightarrow> create_body \<Rightarrow> (int \<times> int) option" where
  "createBookingSchema e d =
     (case (c_checkInDate d, c_checkOutDate d) of
        (DateString checkIn, DateString checkOut) \<Rightarrow>
          if 0 < c_hotelId d
             \<and> 1 \<le> c_numberOfGuests d \<and> c_numberOfGuests d \<le> 20
             \<and> 1 \<le> c_numberOfRooms d \<and> c_numberOfRooms d \<le> 10
             \<and> isEmail e (c_contactEmail d)
             \<and> max_length 20 (c_contactPhone d)
             \<and> max_length 1000 (c_specialRequests d)
             \<and> max_length 20 (c_guestNames d)
             \<and> checkOut > checkIn
             \<and> checkIn \<ge> today e
          then Some (checkIn, checkOut) else None
      | _ \<Rightarrow> None)"

section \<open>Model validators\<close>

text \<open>
  The validators of \<^verbatim>\<open>Booking.init\<close>, field by field, on an instance:
  \<^verbatim>\<open>checkInDate\<close> has \<^verbatim>\<open>isAfter\<close> the day the model was loaded; \<^verbatim>\<open>checkOutDate\<close> has the
  custom \<^verbatim>\<open>isAfterCheckIn\<close>, which throws when \<^verbatim>\<open>value <= this.checkInDate\<close>; the guest
  and room counts have \<^verbatim>\<open>min\<close> and \<^verbatim>\<open>max\<close>, \<^verbatim>\<open>totalPrice\<close> has \<^verbatim>\<open>min: 0\<close>, \<^verbatim>\<open>currency\<close>
  has \<^verbatim>\<open>len: [3, 3]\<close>, \<^verbatim>\<open>contactEmail\<close> has \<^verbatim>\<open>isEmail\<close>, and \<^verbatim>\<open>bookingReference\<close> is
  \<^verbatim>\<open>allowNull: false\<close>.
\<close>

definition valid_checkInDate :: "env \<Rightarrow> booking \<Rightarrow> bool" where
  "valid_checkInDate e b \<longleftrightarrow> startDay e < checkInDate b"

definition valid_checkOutDate :: "booking \<Rightarrow> bool" where
  "valid_checkOutDate b \<longleftrightarrow> \<not> checkOutDate b \<le> checkInDate b"

definition valid_numberOfGuests :: "booking \<Rightarrow> bool" where
  "valid_numberOfGuests b \<longleftrightarrow> 1 \<le> numberOfGuests b \<and> numberOfGuests b \<le> 20"

definition valid_numberOfRooms :: "booking \<Rightarrow> bool" where
  "valid_numberOfRooms b \<longleftrightarrow> 1 \<le> numberOfRooms b \<and> numberOfRooms b \<le> 10"

definition valid_totalPrice :: "booking \<Rightarrow> bool" where
  "valid_totalPrice b \<longleftrightarrow> 0 \<le> totalPrice b"

definition valid_currency :: "booking \<Rightarrow> bool" where
  "valid_currency b \<longleftrightarrow> length (currency b) = 3"

definition valid_contactEmail :: "env \<Rightarrow> booking \<Rightarrow> bool" where
  "valid_contactEmail e b \<longleftrightarrow> isEmail e (contactEmail b)"

definition valid_bookingReference :: "booking \<Rightarrow> bool" where
  "valid_bookingReference b \<longleftrightarrow> bookingReference b \<noteq> None"

text \<open>Validation of a new instance: every field.\<close>

definition Booking_validate :: "env \<Rightarrow> booking \<Rightarrow> bool" where
  "Booking_validate e b \<longleftrightarrow>
     valid_checkInDate e b \<and> valid_checkOutDate b \<and> valid_numberOfGuests b
     \<and> valid_numberOfRooms b \<and> valid_totalPrice b \<and> valid_currency b
     \<and> valid_contactEmail e b \<and> valid_bookingReference b"

text \<open>
  The \<^verbatim>\<open>beforeCreate\<close> hook: an instance without a reference (or with an empty one) gets
  the generated one.
\<close>

definition beforeCreate :: "env \<Rightarrow> booking \<Rightarrow> booking" where
  "beforeCreate e b =
     (if bookingReference b = None \<or> bookingReference b = Some []
      then b\<lparr>bookingReference := Some (newBookingReference e)\<rparr> else b)"

text \<open>
  \<^verbatim>\<open>Booking.create\<close>: the instance is validated, then the hook runs, then the row is
  inserted under the next key. \<open>None\<close> is the validation error.
\<close>

definition Booking_create :: "env \<Rightarrow> booking \<Rightarrow> db \<Rightarrow> (booking \<times> db) option" where
  "Booking_create e values s =
     (if \<not> Booking_validate e values then None
      else
        let b = (beforeCreate e values)\<lparr>booking_id := nextBookingId s\<rparr>
        in Some (b, s\<lparr>bookings := (bookings s)(nextBookingId s \<mapsto> b),
                       nextBookingId := nextBookingId s + 1\<rparr>))"




text \<open>
  The attributes the models declare. A query that selects another one fails in the
  database.
\<close>

definition Hotel_attributes :: "string list" where
  "Hotel_attributes =
     [''id'', ''name'', ''description'', ''address'', ''city'', ''country'', ''postalCode'',
      ''latitude'', ''longitude'', ''starRating'', ''pricePerNight'', ''currency'', ''amenities'',
      ''images'', ''checkInTime'', ''checkOutTime'', ''hotelbedsId'', ''isActive'', ''totalRooms'',
      ''availableRooms'', ''phoneNumber'', ''email'', ''website'', ''createdAt'', ''updatedAt'']"

definition User_attributes :: "string list" where
  "User_attributes =
     [''id'', ''email'', ''password'', ''firstName'', ''lastName'', ''phone'', ''dateOfBirth'',
      ''role'', ''isVerified'', ''verificationToken'', ''resetPasswordToken'',
      ''resetPasswordExpires'', ''profileImage'', ''preferences'', ''createdAt'', ''updatedAt'']"

definition declared :: "string list \<Rightarrow> string list \<Rightarrow> bool" where
  "declared model attributes \<longleftrightarrow> list_all (\<lambda>a. a \<in> set model) attributes"

section \<open>The booking manager\<close>

text \<open>The night count of \<^verbatim>\<open>createBooking\<close> and \<^verbatim>\<open>updateBooking\<close>: \<^verbatim>\<open>Math.ceil\<close> of the day quotient.\<close>

definition nights_between :: "int \<Rightarrow> int \<Rightarrow> int" where
  "nights_between checkIn checkOut =
     \<lceil>(of_int (checkOut - checkIn) :: rat) / of_int (1000 * 3600 * 24)\<rceil>"

text \<open>
  The values \<^verbatim>\<open>createBooking\<close> hands to \<^verbatim>\<open>Booking.create\<close>: the parsed body, the two
  dates, the caller, the price (\<^verbatim>\<open>hotel.pricePerNight * numberOfRooms * nights\<close>), the
  hotel's currency and the two initial statuses. No booking reference is among them.
\<close>

definition new_booking :: "env \<Rightarrow> jwt_payload \<Rightarrow> create_body \<Rightarrow> int \<Rightarrow> int \<Rightarrow> hotel \<Rightarrow> booking" where
  "new_booking e u d checkIn checkOut h =
     \<lparr>booking_id = 0,
      userId = jwt_userId u,
      hotelId = c_hotelId d,
      checkInDate = dateOnly e checkIn,
      checkOutDate = dateOnly e checkOut,
      numberOfGuests = c_numberOfGuests d,
      numberOfRooms = c_numberOfRooms d,
      totalPrice =
        js_times e (js_times e (pricePerNight h) (of_int (c_numberOfRooms d)))
          (of_int (nights_between checkIn checkOut)),
      currency = hotel_currency h,
      status = Pending,
      paymentStatus = PaymentPending,
      paymentMethod = None,
      specialRequests = c_specialRequests d,
      guestNames = c_guestNames d,
      contactEmail = c_contactEmail d,
      contactPhone = c_contactPhone d,
      bookingReference = None,
      cancellationReason = None,
      cancellationDate = None\<rparr>"

text \<open>
  \<^verbatim>\<open>POST /api/bookings\<close>. When \<^verbatim>\<open>Booking.create\<close> throws, the handler's catch answers
  500; the hotel has not been touched then.
\<close>

definition createBooking :: "env \<Rightarrow> jwt_payload \<Rightarrow> create_body \<Rightarrow> db \<Rightarrow> response \<times> db" where
  "createBooking e u d s =
     (case createBookingSchema e d of
        None \<Rightarrow> (respond 400 (Failure ''Invalid booking data''), s)
      | Some (checkIn, checkOut) \<Rightarrow>
          (case hotels s (c_hotelId d) of
             None \<Rightarrow> (respond 404 (Failure ''Hotel not found or not available''), s)
           | Some h \<Rightarrow>
               if \<not> isActive h
               then (respond 404 (Failure ''Hotel not found or not available''), s)
               else if availableRooms h < c_numberOfRooms d
               then (respond 400
                      (FailureRooms ''Not enough rooms available'' (c_numberOfRooms d) (availableRooms h)), s)
               else
                 (case Booking_create e (new_booking e u d checkIn checkOut h) s of
                    None \<Rightarrow> (respond 500 (Failure ''Internal server error''), s)
                  | Some (b, s1) \<Rightarrow>
                      let nights = nights_between checkIn checkOut;
                          h' = h\<lparr>availableRooms := availableRooms h - c_numberOfRooms d\<rparr>;
                          s2 = s1\<lparr>hotels := (hotels s1)(c_hotelId d \<mapsto> h')\<rparr>
                      in (respond 201
                            (SuccessCreated ''Booking created successfully'' b
                               (hotels s2 (c_hotelId d)) nights),
                          s2))))"

text \<open>
  \<^verbatim>\<open>Booking.findOne({ where: whereConditions })\<close> of the three handlers on one booking:
  the key is always constrained, and the owner as well unless the caller is an
  administrator or an employee.
\<close>

definition findBooking :: "jwt_payload \<Rightarrow> int \<Rightarrow> db \<Rightarrow> booking option" where
  "findBooking u bookingId s =
     (case bookings s bookingId of
        None \<Rightarrow> None
      | Some b \<Rightarrow>
          if \<not> isAdmin u \<and> \<not> isEmployee u \<and> userId b \<noteq> jwt_userId u then None else Some b)"

text \<open>
  \<^verbatim>\<open>GET /api/bookings/:id\<close>. The path parameter is given by \<^verbatim>\<open>parseInt\<close> of it: \<open>None\<close>
  stands for \<^verbatim>\<open>NaN\<close>. The query joins the hotel and the user with the attributes listed
  in the handler; it throws when one of them is not declared, and so does the night
  count, and the catch answers 500.
\<close>

definition getBookingById :: "env \<Rightarrow> jwt_payload \<Rightarrow> int option \<Rightarrow> db \<Rightarrow> response \<times> db" where
  "getBookingById e u param s =
     (case param of
        None \<Rightarrow> (respond 400 (Failure ''Invalid booking ID''), s)
      | Some bookingId \<Rightarrow>
          if \<not> (declared Hotel_attributes
                    [''id'', ''name'', ''address'', ''city'', ''country'', ''starRating'', ''images'',
                     ''phoneNumber'', ''email'']
                 \<and> declared User_attributes
                    [''id'', ''firstName'', ''lastName'', ''email'', ''phoneNumber''])
          then (respond 500 (Failure ''Internal server error''), s)
          else
            (case findBooking u bookingId s of
               None \<Rightarrow> (respond 404 (Failure ''Booking not found''), s)
             | Some b \<Rightarrow>
                 (case getNumberOfNights b of
                    None \<Rightarrow> (respond 500 (Failure ''Internal server error''), s)
                  | Some nights \<Rightarrow>
                      (respond 200
                         (SuccessBooking ''Booking retrieved successfully''
                            \<lparr>v_booking = b,
                             v_hotel = hotels s (hotelId b),
                             v_user = find (\<lambda>x. user_id x = userId b) (users s),
                             v_numberOfNights = nights,
                             v_isUpcoming = isUpcoming e b,
                             v_isCurrentStay = isCurrentStay e b,
                             v_isPastStay = isPastStay e b,
                             v_canBeCancelled = canBeCancelled b\<rparr>),
                       s))))"

text \<open>\<^verbatim>\<open>updateBookingSchema.parse\<close>: every field is optional.\<close>

definition valid_date :: "date_string option \<Rightarrow> bool" where
  "valid_date x = (case x of None \<Rightarrow> True | Some InvalidDate \<Rightarrow> False | Some (DateString t) \<Rightarrow> True)"

definition updateBookingSchema :: "env \<Rightarrow> update_body \<Rightarrow> bool" where
  "updateBookingSchema e d \<longleftrightarrow>
     valid_date (u_checkInDate d)
     \<and> valid_date (u_checkOutDate d)
     \<and> in_range 1 20 (u_numberOfGuests d)
     \<and> in_range 1 10 (u_numberOfRooms d)
     \<and> (case u_contactEmail d of None \<Rightarrow> True | Some m \<Rightarrow> isEmail e m)
     \<and> max_length 20 (u_contactPhone d)
     \<and> max_length 1000 (u_specialRequests d)
     \<and> max_length 20 (u_guestNames d)
     \<and> (case u_totalPrice d of None \<Rightarrow> True | Some p \<Rightarrow> 0 < p)"

text \<open>
  \<^verbatim>\<open>x || y\<close> on an optional field: a date field that passed the schema is a parsable,
  hence non-empty, string, so it is truthy exactly when present; a number is truthy
  when present and not zero.
\<close>

definition date_or :: "date_string option \<Rightarrow> int \<Rightarrow> int" where
  "date_or x y = (case x of Some (DateString t) \<Rightarrow> t | _ \<Rightarrow> y)"

definition number_or :: "int option \<Rightarrow> int \<Rightarrow> int" where
  "number_or x y = (case x of Some n \<Rightarrow> if n = 0 then y else n | None \<Rightarrow> y)"

definition dates_or_rooms_changed :: "update_body \<Rightarrow> bool" where
  "dates_or_rooms_changed d \<longleftrightarrow>
     u_checkInDate d \<noteq> None \<or> u_checkOutDate d \<noteq> None
     \<or> (case u_numberOfRooms d of Some n \<Rightarrow> n \<noteq> 0 | None \<Rightarrow> False)"

definition or_keep :: "'a option \<Rightarrow> 'a \<Rightarrow> 'a" where
  "or_keep x y = (case x of Some v \<Rightarrow> v | None \<Rightarrow> y)"

definition or_keep_opt :: "'a option \<Rightarrow> 'a option \<Rightarrow> 'a option" where
  "or_keep_opt x y = (case x of Some v \<Rightarrow> Some v | None \<Rightarrow> y)"

text \<open>
  \<^verbatim>\<open>booking.update(finalUpdateData)\<close>: every field the data has is set on the instance
  (a date as the \<^verbatim>\<open>DATEONLY\<close> column keeps it), the validators of the fields that were
  set are run on the instance, and the row is written. \<open>None\<close> is the validation error.
\<close>

definition date_kept :: "env \<Rightarrow> date_string option \<Rightarrow> int \<Rightarrow> int" where
  "date_kept e x y = (case x of Some (DateString t) \<Rightarrow> dateOnly e t | _ \<Rightarrow> y)"

definition booking_set :: "env \<Rightarrow> update_body \<Rightarrow> booking \<Rightarrow> booking" where
  "booking_set e d b =
     b\<lparr>checkInDate := date_kept e (u_checkInDate d) (checkInDate b),
       checkOutDate := date_kept e (u_checkOutDate d) (checkOutDate b),
       numberOfGuests := or_keep (u_numberOfGuests d) (numberOfGuests b),
       numberOfRooms := or_keep (u_numberOfRooms d) (numberOfRooms b),
       contactEmail := or_keep (u_contactEmail d) (contactEmail b),
       contactPhone := or_keep_opt (u_contactPhone d) (contactPhone b),
       specialRequests := or_keep_opt (u_specialRequests d) (specialRequests b),
       guestNames := or_keep_opt (u_guestNames d) (guestNames b),
       status := or_keep (u_status d) (status b),
       paymentStatus := or_keep (u_paymentStatus d) (paymentStatus b),
       totalPrice := or_keep (u_totalPrice d) (totalPrice b)\<rparr>"

definition written :: "'a option \<Rightarrow> bool \<Rightarrow> bool" where
  "written x ok = (case x of None \<Rightarrow> True | Some v \<Rightarrow> ok)"

definition Booking_validate_fields :: "env \<Rightarrow> update_body \<Rightarrow> booking \<Rightarrow> bool" where
  "Booking_validate_fields e d b \<longleftrightarrow>
     written (u_checkInDate d) (valid_checkInDate e b)
     \<and> written (u_checkOutDate d) (valid_checkOutDate b)
     \<and> written (u_numberOfGuests d) (valid_numberOfGuests b)
     \<and> written (u_numberOfRooms d) (valid_numberOfRooms b)
     \<and> written (u_contactEmail d) (valid_contactEmail e b)
     \<and> written (u_totalPrice d) (valid_totalPrice b)"

definition booking_update :: "env \<Rightarrow> update_body \<Rightarrow> booking \<Rightarrow> booking option" where
  "booking_update e d b =
     (if Booking_validate_fields e d (booking_set e d b) then Some (booking_set e d b) else None)"

text \<open>
  The price of \<^verbatim>\<open>updateBooking\<close> when dates or rooms are in the request, from the hotel
  as it is now: \<^verbatim>\<open>hotel!.pricePerNight * rooms * nights\<close>.
\<close>

definition updated_price :: "env \<Rightarrow> hotel \<Rightarrow> update_body \<Rightarrow> booking \<Rightarrow> rat" where
  "updated_price e h d b =
     (let checkIn = date_or (u_checkInDate d) (checkInDate b);
          checkOut = date_or (u_checkOutDate d) (checkOutDate b);
          nights = nights_between checkIn checkOut;
          rooms = number_or (u_numberOfRooms d) (numberOfRooms b)
      in js_times e (js_times e (pricePerNight h) (of_int rooms)) (of_int nights))"

text \<open>
  The data \<^verbatim>\<open>updateBooking\<close> hands to \<^verbatim>\<open>booking.update\<close>: the parsed body, with the
  price recomputed when dates or rooms are in it. \<^verbatim>\<open>hotel!.pricePerNight\<close> throws when
  the hotel row is gone (\<open>None\<close>).
\<close>

definition finalUpdateData :: "env \<Rightarrow> update_body \<Rightarrow> booking \<Rightarrow> db \<Rightarrow> update_body option" where
  "finalUpdateData e d b s =
     (if dates_or_rooms_changed d
      then (case hotels s (hotelId b) of
              None \<Rightarrow> None
            | Some h \<Rightarrow> Some (d\<lparr>u_totalPrice := Some (updated_price e h d b)\<rparr>))
      else Some d)"

text \<open>
  \<^verbatim>\<open>PUT /api/bookings/:id\<close>. The body is parsed before the path parameter is looked at.
  Both exceptions end in the handler's catch, which answers 500 with nothing written.
\<close>

definition updateBooking :: "env \<Rightarrow> jwt_payload \<Rightarrow> int option \<Rightarrow> update_body \<Rightarrow> db \<Rightarrow> response \<times> db" where
  "updateBooking e u param d s =
     (if \<not> updateBookingSchema e d
      then (respond 400 (Failure ''Invalid update data''), s)
      else case param of
        None \<Rightarrow> (respond 400 (Failure ''Invalid booking ID''), s)
      | Some bookingId \<Rightarrow>
          (case findBooking u bookingId s of
             None \<Rightarrow> (respond 404 (Failure ''Booking not found''), s)
           | Some b \<Rightarrow>
               if \<not> isAdmin u \<and> (status b = Completed \<or> status b = Cancelled)
               then (respond 400 (Failure ''Cannot modify completed or cancelled bookings''), s)
               else
                 (case finalUpdateData e d b s of
                    None \<Rightarrow> (respond 500 (Failure ''Internal server error''), s)
                  | Some d' \<Rightarrow>
                      (case booking_update e d' b of
                         None \<Rightarrow> (respond 500 (Failure ''Internal server error''), s)
                       | Some b' \<Rightarrow>
                           (respond 200 (SuccessUpdated ''Booking updated successfully'' b'),
                            s\<lparr>bookings := (bookings s)(bookingId \<mapsto> b')\<rparr>)))))"

text \<open>
  \<^verbatim>\<open>DELETE /api/bookings/:id\<close>. The body's \<^verbatim>\<open>cancellationReason\<close> is optional, and an
  empty one is replaced like a missing one. The hotel is the joined row; when there is
  none the counter is not touched. The three fields \<^verbatim>\<open>booking.update\<close> writes here have
  no validator. \<^verbatim>\<open>hotel.update\<close> writes \<^verbatim>\<open>availableRooms\<close>, whose validator \<^verbatim>\<open>min: 0\<close>
  accepts the sum whenever the stored counter and the booking's room count passed their
  own validators; that check is left out, so the store is taken to hold such rows.
\<close>

definition reason_or_default :: "string option \<Rightarrow> string" where
  "reason_or_default r = (case r of None \<Rightarrow> ''Cancelled by user'' | Some x \<Rightarrow> if x = [] then ''Cancelled by user'' else x)"

definition cancelBooking :: "env \<Rightarrow> jwt_payload \<Rightarrow> int option \<Rightarrow> string option \<Rightarrow> db \<Rightarrow> response \<times> db" where
  "cancelBooking e u param reason s =
     (case param of
        None \<Rightarrow> (respond 400 (Failure ''Invalid booking ID''), s)
      | Some bookingId \<Rightarrow>
          (case findBooking u bookingId s of
             None \<Rightarrow> (respond 404 (Failure ''Booking not found''), s)
           | Some b \<Rightarrow>
               if \<not> canBeCancelled b
               then (respond 400 (Failure ''This booking cannot be cancelled''), s)
               else
                 let b' = b\<lparr>status := Cancelled,
                            cancellationReason := Some (reason_or_default reason),
                            cancellationDate := Some (now e)\<rparr>;
                     s1 = s\<lparr>bookings := (bookings s)(bookingId \<mapsto> b')\<rparr>;
                     s2 = (case hotels s (hotelId b) of
                             None \<Rightarrow> s1
                           | Some h \<Rightarrow>
                               s1\<lparr>hotels := (hotels s1)(hotelId b \<mapsto>
                                     h\<lparr>availableRooms := availableRooms h + numberOfRooms b\<rparr>)\<rparr>)
                 in (respond 200 (Success ''Booking cancelled successfully''), s2)))"

section \<open>Registration\<close>







section \<open>Sequences of operations\<close>

text \<open>A request to the booking manager that can write, with what it reads from outside.\<close>

datatype operation =
    CreateBooking env jwt_payload create_body
  | UpdateBooking env jwt_payload "int option" update_body
  | CancelBooking env jwt_payload "int option" "string option"

fun step :: "db \<Rightarrow> operation \<Rightarrow> db" where
  "step s (CreateBooking e u d) = snd (createBooking e u d s)"
| "step s (UpdateBooking e u param d) = snd (updateBooking e u param d s)"
| "step s (CancelBooking e u param reason) = snd (cancelBooking e u param reason s)"

definition run :: "operation list \<Rightarrow> db \<Rightarrow> db" where
  "run ops s = foldl step s ops"

text \<open>The hotel invariant of the data model, and its lower half with what it needs of the bookings.\<close>

definition hotel_invariant :: "db \<Rightarrow> bool" where
  "hotel_invariant s \<longleftrightarrow>
     (\<forall>k h. hotels s k = Some h \<longrightarrow> 0 \<le> availableRooms h \<and> availableRooms h \<le> totalRooms h)"

definition rooms_not_negative :: "db \<Rightarrow> bool" where
  "rooms_not_negative s \<longleftrightarrow>
     (\<forall>k h. hotels s k = Some h \<longrightarrow> 0 \<le> availableRooms h)
     \<and> (\<forall>k b. bookings s k = Some b \<longrightarrow> 0 \<le> numberOfRooms b)"

section \<open>Example data\<close>

text \<open>
  A server in UTC that loaded its models on 2024-02-29, with multiplication exact on
  the numbers of the examples (small integers).
\<close>

definition env0 :: env where
  "env0 =
     \<lparr>now = 1709200000000,
      today = 1709164800000,
      startDay = 1709164800000,
      dateOnly = (\<lambda>t. t - t mod 86400000),
      js_times = (\<lambda>x y. x * y),
      isEmail = (\<lambda>m. CHR ''@'' \<in> set m),
      newBookingReference = ''WLLT7QK2W0AB12CD'',
      EMPLOYEE_SIGNUP_CODE = Some ''staff-2024'',
      JWT_SECRET = Some ''secret'',
      bcrypt_hash = (\<lambda>p. ''$2a$12$'' @ p),
      jwt_sign = (\<lambda>p k. ''jwt.'' @ jwt_email p),
      newVerificationToken = ''k3j9x0a7lt7qk2w0''\<rparr>"

definition hotel0 :: hotel where
  "hotel0 =
     \<lparr>hotel_id = 1, hotel_name = ''Harbour View'', city = ''Hong Kong'', country = ''China'',
      starRating = 4, pricePerNight = 100, hotel_currency = ''USD'', isActive = True,
      totalRooms = 10, availableRooms = 2\<rparr>"

definition alice :: jwt_payload where
  "alice = \<lparr>jwt_userId = 7, jwt_email = ''alice@example.com'', jwt_role = Customer\<rparr>"

definition bob :: jwt_payload where
  "bob = \<lparr>jwt_userId = 8, jwt_email = ''bob@example.com'', jwt_role = Customer\<rparr>"

definition staff :: jwt_payload where
  "staff = \<lparr>jwt_userId = 2, jwt_email = ''staff@example.com'', jwt_role = Employee\<rparr>"


text \<open>A store with the hotel and no booking.\<close>

definition db0 :: db where
  "db0 = \<lparr>hotels = [1 \<mapsto> hotel0], bookings = Map.empty, users = [], nextBookingId = 1, nextUserId = 1\<rparr>"

text \<open>Two rooms from 2024-03-01 to 2024-03-04 (UTC midnights).\<close>

definition request0 :: create_body where
  "request0 =
     \<lparr>c_hotelId = 1, c_checkInDate = DateString 1709251200000,
      c_checkOutDate = DateString 1709510400000, c_numberOfGuests = 2, c_numberOfRooms = 2,
      c_contactEmail = ''alice@example.com'', c_contactPhone = None, c_specialRequests = None,
      c_guestNames = None\<rparr>"

text \<open>
  A store that holds a booking: alice's two rooms for those three nights, pending, at
  600, with the hotel's two rooms taken.
\<close>

definition booking0 :: booking where
  "booking0 =
     \<lparr>booking_id = 1, userId = 7, hotelId = 1, checkInDate = 1709251200000,
      checkOutDate = 1709510400000, numberOfGuests = 2, numberOfRooms = 2, totalPrice = 600,
      currency = ''USD'', status = Pending, paymentStatus = PaymentPending,
      paymentMethod = None, specialRequests = None, guestNames = None,
      contactEmail = ''alice@example.com'', contactPhone = None,
      bookingReference = Some ''WLLT7QK2W0AB12CD'', cancellationReason = None,
      cancellationDate = None\<rparr>"

definition db1 :: db where
  "db1 =
     \<lparr>hotels = [1 \<mapsto> hotel0\<lparr>availableRooms := 0\<rparr>], bookings = [1 \<mapsto> booking0],
      users = [], nextBookingId = 2, nextUserId = 1\<rparr>"

text \<open>An update body with no field.\<close>

definition no_change :: update_body where
  "no_change =
     \<lparr>u_checkInDate = None, u_checkOutDate = None, u_numberOfGuests = None,
      u_numberOfRooms = None, u_contactEmail = None, u_contactPhone = None,
      u_specialRequests = None, u_guestNames = None, u_status = None,
      u_paymentStatus = None, u_totalPrice = None\<rparr>"

text \<open>The store after the owner cancels that booking.\<close>

definition db2 :: db where
  "db2 = snd (cancelBooking env0 alice (Some 1) (Some ''change of plans'') db1)"




definition cheaper :: update_body where
  "cheaper = no_change\<lparr>u_totalPrice := Some 1\<rparr>"




definition two_rooms :: update_body where
  "two_rooms = no_change\<lparr>u_numberOfRooms := Some 2\<rparr>"


text \<open>
  A store in which the hotel has nine of its ten rooms free and alice holds one room;
  her update of that booking to two rooms, then her cancellation of it.
\<close>

definition db_one :: db where
  "db_one =
     \<lparr>hotels = [1 \<mapsto> hotel0\<lparr>availableRooms := 9\<rparr>],
      bookings = [1 \<mapsto> booking0\<lparr>numberOfRooms := 1, totalPrice := 300\<rparr>],
      users = [], nextBookingId = 2, nextUserId = 1\<rparr>"

definition grow_then_cancel :: "operation list" where
  "grow_then_cancel =
     [UpdateBooking env0 alice (Some 1) two_rooms, CancelBooking env0 alice (Some 1) None]"





section \<open>Night count\<close>

lemma nights_between_div: "nights_between a b = - ((a - b) div 86400000)"
proof -
  have "\<lceil>(of_int (b - a) :: rat) / of_int 86400000\<rceil> = - (- (b - a) div 86400000)"
    by (rule ceiling_divide_eq_div)
  then show ?thesis
    by (simp add: nights_between_def)
qed

lemma nights_between_bounds:
  "86400000 * (nights_between a b - 1) < b - a \<and> b - a \<le> 86400000 * nights_between a b"
proof -
  define q where "q = (a - b) div 86400000"
  define r where "r = (a - b) mod 86400000"
  have r: "0 \<le> r \<and> r < 86400000"
    by (simp add: r_def)
  have x: "a - b = 86400000 * q + r"
    by (simp add: q_def r_def)
  have n: "nights_between a b = - q"
    by (simp add: nights_between_div q_def)
  have "86400000 * (- q - 1) < b - a \<and> b - a \<le> 86400000 * (- q)"
    using r x by (simp add: algebra_simps)
  then show ?thesis
    by (simp only: n)
qed

section \<open>Cancelling a booking\<close>

lemma request0_valid: "createBookingSchema env0 request0 = Some (1709251200000, 1709510400000)"
  by (simp add: createBookingSchema_def env0_def request0_def max_length_def)

lemma db1_eq:
  "db1 = \<lparr>hotels = [1 \<mapsto> hotel0\<lparr>availableRooms := 0\<rparr>], bookings = [1 \<mapsto> booking0],
           users = [], nextBookingId = 2, nextUserId = 1\<rparr>"
  by (simp add: db1_def)

lemma booking0_fields:
  "userId booking0 = 7" "hotelId booking0 = 1" "status booking0 = Pending"
  "numberOfRooms booking0 = 2" "totalPrice booking0 = 600"
  "checkInDate booking0 = 1709251200000" "checkOutDate booking0 = 1709510400000"
  by (simp_all add: booking0_def)

lemma alice_finds: "findBooking alice 1 db1 = Some booking0"
  by (simp add: findBooking_def db1_eq booking0_fields alice_def)

lemma findBooking_same:
  "findBooking u k s = Some b \<Longrightarrow> userId b' = userId b \<Longrightarrow>
   findBooking u k (s\<lparr>bookings := (bookings s)(k \<mapsto> b'), hotels := hs\<rparr>) = Some b'"
  by (auto simp: findBooking_def split: option.splits if_splits)

text \<open>
  C2. For a booking the caller can reach (with its hotel row present): when its status is
  pending or confirmed, \<open>cancelBooking\<close> answers 200, sets the status to cancelled,
  records the reason (the one given, or "Cancelled by user" when none or an empty one is
  given) and the date, and increases the hotel's \<open>availableRooms\<close> by exactly the
  booking's \<open>numberOfRooms\<close>; a second cancellation of it is then rejected with 400 for
  the same caller, and for every caller it is an error (400 or 404) that leaves the store
  as it is. When the status is cancelled or completed, the cancellation is rejected with
  400 and the store is unchanged.
\<close>

theorem cancelBooking_effect:
  assumes found: "findBooking u k s = Some b"
    and hotel: "hotels s (hotelId b) = Some h"
  shows "((status b = Pending \<or> status b = Confirmed) \<longrightarrow>
            res_status (fst (cancelBooking e u (Some k) reason s)) = 200
            \<and> bookings (snd (cancelBooking e u (Some k) reason s))
                = (bookings s)(k \<mapsto> b\<lparr>status := Cancelled,
                                        cancellationReason := Some (reason_or_default reason),
                                        cancellationDate := Some (now e)\<rparr>)
            \<and> (\<forall>r. reason = Some r \<and> r \<noteq> [] \<longrightarrow> reason_or_default reason = r)
            \<and> hotels (snd (cancelBooking e u (Some k) reason s))
                = (hotels s)(hotelId b \<mapsto> h\<lparr>availableRooms := availableRooms h + numberOfRooms b\<rparr>)
            \<and> (\<forall>e' reason'.
                  cancelBooking e' u (Some k) reason' (snd (cancelBooking e u (Some k) reason s))
                    = (respond 400 (Failure ''This booking cannot be cancelled''),
                       snd (cancelBooking e u (Some k) reason s)))
            \<and> (\<forall>e' u' reason'.
                  res_status (fst (cancelBooking e' u' (Some k) reason' (snd (cancelBooking e u (Some k) reason s))))
                    \<in> {400, 404}
                  \<and> snd (cancelBooking e' u' (Some k) reason' (snd (cancelBooking e u (Some k) reason s)))
                      = snd (cancelBooking e u (Some k) reason s)))
       \<and> ((status b = Cancelled \<or> status b = Completed) \<longrightarrow>
            cancelBooking e u (Some k) reason s
              = (respond 400 (Failure ''This booking cannot be cancelled''), s))"
proof -
  let ?b' = "b\<lparr>status := Cancelled, cancellationReason := Some (reason_or_default reason),
                cancellationDate := Some (now e)\<rparr>"
  let ?s' = "s\<lparr>bookings := (bookings s)(k \<mapsto> ?b'),
               hotels := (hotels s)(hotelId b \<mapsto> h\<lparr>availableRooms := availableRooms h + numberOfRooms b\<rparr>)\<rparr>"
  have rejected: "cancelBooking e u (Some k) reason s
      = (respond 400 (Failure ''This booking cannot be cancelled''), s)"
    if "status b = Cancelled \<or> status b = Completed"
    using that found by (auto simp: cancelBooking_def canBeCancelled_def)
  have accepted: "cancelBooking e u (Some k) reason s
      = (respond 200 (Success ''Booking cancelled successfully''), ?s')"
    if "status b = Pending \<or> status b = Confirmed"
    using that found hotel by (auto simp: cancelBooking_def canBeCancelled_def Let_def)
  have again: "cancelBooking e' u (Some k) reason' ?s'
      = (respond 400 (Failure ''This booking cannot be cancelled''), ?s')" for e' reason'
  proof -
    have "findBooking u k ?s' = Some ?b'"
      using found by (intro findBooking_same) simp_all
    then show ?thesis
      by (simp add: cancelBooking_def canBeCancelled_def)
  qed
  have anyone: "res_status (fst (cancelBooking e' u' (Some k) reason' ?s')) \<in> {400, 404}
      \<and> snd (cancelBooking e' u' (Some k) reason' ?s') = ?s'" for e' u' reason'
    by (simp add: cancelBooking_def findBooking_def canBeCancelled_def respond_def)
  have default: "\<forall>r. reason = Some r \<and> r \<noteq> [] \<longrightarrow> reason_or_default reason = r"
    by (simp add: reason_or_default_def)
  show ?thesis
    using rejected accepted again anyone default
    by (simp add: respond_def)
qed


lemma db2_eq:
  "db2 = \<lparr>hotels = [1 \<mapsto> hotel0],
           bookings = [1 \<mapsto> booking0\<lparr>status := Cancelled,
                                      cancellationReason := Some ''change of plans'',
                                      cancellationDate := Some 1709200000000\<rparr>],
           users = [], nextBookingId = 2, nextUserId = 1\<rparr>"
  by (simp add: db2_def cancelBooking_def alice_finds canBeCancelled_def booking0_fields Let_def)
    (simp add: db1_eq reason_or_default_def env0_def hotel0_def booking0_fields)

theorem cancelBooking_effect_witness:
  "res_status (fst (cancelBooking env0 alice (Some 1) (Some ''change of plans'') db1)) = 200
   \<and> map_option status (bookings db1 1) = Some Pending
   \<and> map_option status (bookings db2 1) = Some Cancelled
   \<and> map_option cancellationReason (bookings db2 1) = Some (Some ''change of plans'')
   \<and> map_option cancellationDate (bookings db2 1) = Some (Some 1709200000000)
   \<and> map_option numberOfRooms (bookings db1 1) = Some 2
   \<and> map_option availableRooms (hotels db1 1) = Some 0
   \<and> map_option availableRooms (hotels db2 1) = Some 2
   \<and> cancelBooking env0 alice (Some 1) None db2
       = (respond 400 (Failure ''This booking cannot be cancelled''), db2)
   \<and> cancelBooking env0 staff (Some 1) (Some ''again'') db2
       = (respond 400 (Failure ''This booking cannot be cancelled''), db2)"
proof -
  let ?b2 = "booking0\<lparr>status := Cancelled, cancellationReason := Some ''change of plans'',
                      cancellationDate := Some 1709200000000\<rparr>"
  have f: "findBooking alice 1 db1 = Some booking0"
    by (rule alice_finds)
  have h: "hotels db1 (hotelId booking0) = Some (hotel0\<lparr>availableRooms := 0\<rparr>)"
    by (simp add: db1_eq booking0_fields)
  have f2: "findBooking staff 1 db2 = Some ?b2"
    by (simp add: findBooking_def db2_eq staff_def isAdmin_def isEmployee_def)
  have h2: "hotels db2 (hotelId ?b2) = Some hotel0"
    by (simp add: db2_eq booking0_fields)
  from cancelBooking_effect [OF f h, of env0 "Some ''change of plans''"]
    cancelBooking_effect [OF f2 h2, of env0 "Some ''again''"]
  show ?thesis
    by (simp add: db2_def [symmetric] booking0_fields)
      (simp add: db1_eq db2_eq booking0_fields reason_or_default_def env0_def hotel0_def)
qed

section \<open>Updating a booking\<close>






lemma cheaper_valid: "updateBookingSchema e cheaper"
  by (simp add: updateBookingSchema_def cheaper_def no_change_def valid_date_def in_range_def max_length_def)




section \<open>Creating a booking\<close>

text \<open>
  The values of \<open>new_booking\<close> have no reference, and validation comes before the hook
  that would generate one: \<^verbatim>\<open>Booking.create\<close> refuses them, whatever else they hold.
\<close>

lemma new_booking_refused: "Booking_create e (new_booking e u d checkIn checkOut h) s = None"
  by (simp add: Booking_create_def Booking_validate_def valid_bookingReference_def new_booking_def)

lemma createBooking_served:
  assumes "createBookingSchema e d = Some (checkIn, checkOut)"
    and "hotels s (c_hotelId d) = Some h"
    and "isActive h"
    and "c_numberOfRooms d \<le> availableRooms h"
  shows "createBooking e u d s = (respond 500 (Failure ''Internal server error''), s)"
  using assms by (simp add: createBooking_def new_booking_refused)

text \<open>
  C1. A create-booking request that passes the schema, against a hotel that exists and
  is active. When more rooms are asked for than are available, the answer is 400 "Not
  enough rooms available" and the store (hotels and bookings) is the one before, as the
  claim says. When the hotel has the rooms asked for, the claim's 201 with
  \<open>availableRooms\<close> decreased is not what the code does: \<^verbatim>\<open>Booking.create\<close> is refused
  for the missing reference, the answer is 500, and the store is the one before, so a
  request for all \<open>N\<close> available rooms leaves \<open>N\<close>, not 0.
\<close>

theorem createBooking_inventory:
  assumes "createBookingSchema e d = Some (checkIn, checkOut)"
    and "hotels s (c_hotelId d) = Some h"
    and "isActive h"
  shows "(c_numberOfRooms d \<le> availableRooms h \<longrightarrow>
            createBooking e u d s = (respond 500 (Failure ''Internal server error''), s))
       \<and> (availableRooms h < c_numberOfRooms d \<longrightarrow>
            createBooking e u d s
              = (respond 400 (FailureRooms ''Not enough rooms available'' (c_numberOfRooms d) (availableRooms h)), s))"
proof (intro conjI impI)
  assume "c_numberOfRooms d \<le> availableRooms h"
  with assms show "createBooking e u d s = (respond 500 (Failure ''Internal server error''), s)"
    by (rule createBooking_served)
next
  assume "availableRooms h < c_numberOfRooms d"
  with assms show "createBooking e u d s
      = (respond 400 (FailureRooms ''Not enough rooms available'' (c_numberOfRooms d) (availableRooms h)), s)"
    by (simp add: createBooking_def)
qed

theorem createBooking_inventory_witness:
  "map_option availableRooms (hotels db0 1) = Some 2
   \<and> c_numberOfRooms request0 = 2
   \<and> createBooking env0 alice request0 db0 = (respond 500 (Failure ''Internal server error''), db0)
   \<and> createBooking env0 alice (request0\<lparr>c_numberOfRooms := 3\<rparr>) db0
       = (respond 400 (FailureRooms ''Not enough rooms available'' 3 2), db0)"
proof -
  have h: "hotels db0 (c_hotelId request0) = Some hotel0"
    by (simp add: db0_def request0_def)
  have a: "isActive hotel0"
    by (simp add: hotel0_def)
  have v3: "createBookingSchema env0 (request0\<lparr>c_numberOfRooms := 3\<rparr>) = Some (1709251200000, 1709510400000)"
    by (simp add: createBookingSchema_def env0_def request0_def max_length_def)
  have h3: "hotels db0 (c_hotelId (request0\<lparr>c_numberOfRooms := 3\<rparr>)) = Some hotel0"
    by (simp add: db0_def request0_def)
  have r: "c_numberOfRooms request0 = 2" "availableRooms hotel0 = 2"
    "c_numberOfRooms (request0\<lparr>c_numberOfRooms := 3\<rparr>) = 3"
    by (simp_all add: request0_def hotel0_def)
  have w0: "map_option availableRooms (hotels db0 1) = Some 2"
    by (simp add: db0_def hotel0_def)
  from createBooking_inventory [OF request0_valid h a, of alice]
    createBooking_inventory [OF v3 h3 a, of alice] r w0
  show ?thesis
    by simp
qed

text \<open>
  C3. For a create-booking request that passes the schema and reaches the price (hotel
  present, active, with enough rooms), the handler computes the night count as the
  ceiling of the stay in days (the least \<open>n\<close> with \<open>checkOut - checkIn \<le> n\<close> days) and
  hands \<^verbatim>\<open>Booking.create\<close> the price \<open>pricePerNight * numberOfRooms * nights\<close>, as
  JavaScript multiplies. But no price is stored, which is where the claim fails:
  the create is refused, the answer is 500 and the bookings are the ones before. The
  witness is the example of the specification: 100.00 a night, 2 rooms, 2024-03-01 to
  2024-03-04 give 3 nights and 600, and the request is answered 500.
\<close>

theorem createBooking_price:
  assumes "createBookingSchema e d = Some (checkIn, checkOut)"
    and "hotels s (c_hotelId d) = Some h"
    and "isActive h"
    and "c_numberOfRooms d \<le> availableRooms h"
  shows "c_checkInDate d = DateString checkIn \<and> c_checkOutDate d = DateString checkOut
       \<and> 86400000 * (nights_between checkIn checkOut - 1) < checkOut - checkIn
       \<and> checkOut - checkIn \<le> 86400000 * nights_between checkIn checkOut
       \<and> totalPrice (new_booking e u d checkIn checkOut h)
           = js_times e (js_times e (pricePerNight h) (of_int (c_numberOfRooms d)))
               (of_int (nights_between checkIn checkOut))
       \<and> createBooking e u d s = (respond 500 (Failure ''Internal server error''), s)"
proof -
  have dates: "c_checkInDate d = DateString checkIn \<and> c_checkOutDate d = DateString checkOut"
    using assms(1)
    by (auto simp: createBookingSchema_def split: date_string.splits if_splits)
  have price: "totalPrice (new_booking e u d checkIn checkOut h)
           = js_times e (js_times e (pricePerNight h) (of_int (c_numberOfRooms d)))
               (of_int (nights_between checkIn checkOut))"
    by (simp add: new_booking_def)
  from dates nights_between_bounds [of checkIn checkOut] price createBooking_served [OF assms]
  show ?thesis
    by (intro conjI) simp_all
qed

theorem createBooking_price_witness:
  "pricePerNight hotel0 = 100 \<and> c_numberOfRooms request0 = 2
   \<and> c_checkInDate request0 = DateString 1709251200000
   \<and> c_checkOutDate request0 = DateString 1709510400000
   \<and> nights_between 1709251200000 1709510400000 = 3
   \<and> totalPrice (new_booking env0 alice request0 1709251200000 1709510400000 hotel0) = 600
   \<and> createBooking env0 alice request0 db0 = (respond 500 (Failure ''Internal server error''), db0)
   \<and> bookings db0 = Map.empty"
proof -
  have h: "hotels db0 (c_hotelId request0) = Some hotel0"
    by (simp add: db0_def request0_def)
  have a: "isActive hotel0"
    by (simp add: hotel0_def)
  have r: "c_numberOfRooms request0 \<le> availableRooms hotel0"
    by (simp add: hotel0_def request0_def)
  have n: "nights_between 1709251200000 1709510400000 = 3"
    by (simp add: nights_between_div)
  have f: "pricePerNight hotel0 = 100" "c_numberOfRooms request0 = 2" "bookings db0 = Map.empty"
    by (simp_all add: hotel0_def request0_def db0_def)
  have j: "js_times env0 (js_times env0 100 2) 3 = 600"
    by (simp add: env0_def)
  from createBooking_price [OF request0_valid h a r, of alice] n f j
  show ?thesis
    by simp
qed










section \<open>Who may update what\<close>

lemma findBooking_foreign:
  "\<not> isAdmin u \<Longrightarrow> \<not> isEmployee u \<Longrightarrow> bookings s k = Some b \<Longrightarrow> userId b \<noteq> jwt_userId u \<Longrightarrow>
   findBooking u k s = None"
  by (simp add: findBooking_def)


lemma findBooking_Some:
  "findBooking u k s = Some b \<Longrightarrow>
   bookings s k = Some b \<and> (isAdmin u \<or> isEmployee u \<or> userId b = jwt_userId u)"
  by (auto simp: findBooking_def split: option.splits if_splits)










section \<open>Ownership scoping\<close>

text \<open>
  Reading a booking by id: the query asks the users table for \<^verbatim>\<open>phoneNumber\<close>, which
  the User model does not declare (its column is \<^verbatim>\<open>phone\<close>), so for every numeric id
  and every caller the query throws and the answer is 500.
\<close>

lemma getBookingById_fails:
  "getBookingById e u (Some k) s = (respond 500 (Failure ''Internal server error''), s)"
  by (simp add: getBookingById_def declared_def User_attributes_def)

text \<open>
  C7. A caller who is neither administrator nor employee, on a booking that exists and
  belongs to another user: cancelling it answers 404 "Booking not found", and so does
  updating it (400 "Invalid update data" when the body does not pass the schema, which is
  checked first); reading it by id answers 500 "Internal server error", not the 404 or
  403 of the claim, because the handler's query fails for every caller. Each time the
  store is unchanged and the body carries no booking, so nothing of the other user's
  booking is in the response.
\<close>

theorem foreign_booking_hidden:
  assumes "\<not> isAdmin u" and "\<not> isEmployee u"
    and "bookings s k = Some b" and "userId b \<noteq> jwt_userId u"
  shows "getBookingById e u (Some k) s = (respond 500 (Failure ''Internal server error''), s)
       \<and> cancelBooking e u (Some k) reason s = (respond 404 (Failure ''Booking not found''), s)
       \<and> updateBooking e u (Some k) d s
           = (if updateBookingSchema e d then respond 404 (Failure ''Booking not found'')
              else respond 400 (Failure ''Invalid update data''), s)
       \<and> body_booking (res_body (fst (getBookingById e u (Some k) s))) = None
       \<and> body_booking (res_body (fst (cancelBooking e u (Some k) reason s))) = None
       \<and> body_booking (res_body (fst (updateBooking e u (Some k) d s))) = None"
proof -
  have f: "findBooking u k s = None"
    using assms by (rule findBooking_foreign)
  have g: "getBookingById e u (Some k) s = (respond 500 (Failure ''Internal server error''), s)"
    by (rule getBookingById_fails)
  have c: "cancelBooking e u (Some k) reason s = (respond 404 (Failure ''Booking not found''), s)"
    by (simp add: cancelBooking_def f)
  have p: "updateBooking e u (Some k) d s
           = (if updateBookingSchema e d then respond 404 (Failure ''Booking not found'')
              else respond 400 (Failure ''Invalid update data''), s)"
    by (simp add: updateBooking_def f)
  show ?thesis
    by (simp add: g c p respond_def)
qed

theorem foreign_booking_hidden_witness:
  "map_option userId (bookings db1 1) = Some 7 \<and> jwt_userId bob = 8 \<and> jwt_role bob = Customer
   \<and> getBookingById env0 bob (Some 1) db1 = (respond 500 (Failure ''Internal server error''), db1)
   \<and> cancelBooking env0 bob (Some 1) None db1 = (respond 404 (Failure ''Booking not found''), db1)
   \<and> updateBooking env0 bob (Some 1) cheaper db1 = (respond 404 (Failure ''Booking not found''), db1)"
proof -
  have r: "\<not> isAdmin bob" "\<not> isEmployee bob"
    by (simp_all add: isAdmin_def isEmployee_def bob_def)
  have b: "bookings db1 1 = Some booking0"
    by (simp add: db1_eq)
  have n: "userId booking0 \<noteq> jwt_userId bob"
    by (simp add: booking0_fields bob_def)
  from foreign_booking_hidden [OF r b n, of env0 None cheaper]
  show ?thesis
    by (simp add: cheaper_valid b booking0_fields bob_def)
qed

section \<open>Status transitions\<close>











section \<open>The room counter over sequences of operations\<close>

lemma createBooking_store: "snd (createBooking e u d s) = s"
  by (simp add: createBooking_def new_booking_refused split: option.splits prod.splits)

lemma createBooking_rooms:
  assumes "rooms_not_negative s"
  shows "rooms_not_negative (snd (createBooking e u d s))"
  using assms by (simp add: createBooking_store)

lemma booking_update_rooms:
  assumes "booking_update e d' b = Some b'" and "0 \<le> numberOfRooms b"
  shows "0 \<le> numberOfRooms b'"
proof -
  have v: "Booking_validate_fields e d' (booking_set e d' b)" and b': "b' = booking_set e d' b"
    using assms(1) by (auto simp: booking_update_def split: if_splits)
  show ?thesis
  proof (cases "u_numberOfRooms d'")
    case None
    then show ?thesis
      using assms(2) by (simp add: b' booking_set_def or_keep_def)
  next
    case (Some n)
    then have "valid_numberOfRooms (booking_set e d' b)"
      using v by (simp add: Booking_validate_fields_def written_def)
    then show ?thesis
      by (simp add: b' valid_numberOfRooms_def)
  qed
qed

lemma updateBooking_rooms:
  assumes "rooms_not_negative s"
  shows "rooms_not_negative (snd (updateBooking e u param d s))"
proof (cases "\<exists>j b d' b'. updateBookingSchema e d \<and> param = Some j \<and> findBooking u j s = Some b
      \<and> (isAdmin u \<or> (status b \<noteq> Completed \<and> status b \<noteq> Cancelled))
      \<and> finalUpdateData e d b s = Some d' \<and> booking_update e d' b = Some b'")
  case True
  then obtain j b d' b' where a: "updateBookingSchema e d" "param = Some j" "findBooking u j s = Some b"
      "isAdmin u \<or> (status b \<noteq> Completed \<and> status b \<noteq> Cancelled)"
      "finalUpdateData e d b s = Some d'" "booking_update e d' b = Some b'"
    by blast
  have r: "snd (updateBooking e u param d s) = s\<lparr>bookings := (bookings s)(j \<mapsto> b')\<rparr>"
    using a by (auto simp: updateBooking_def)
  have old: "bookings s j = Some b"
    using findBooking_Some [OF a(3)] by simp
  then have "0 \<le> numberOfRooms b"
    using assms unfolding rooms_not_negative_def by blast
  then have "0 \<le> numberOfRooms b'"
    by (rule booking_update_rooms [OF a(6)])
  then show ?thesis
    unfolding r using assms by (auto simp: rooms_not_negative_def)
next
  case False
  then have "snd (updateBooking e u param d s) = s"
    by (auto simp: updateBooking_def split: option.splits)
  then show ?thesis
    using assms by simp
qed

lemma cancelBooking_rooms:
  assumes "rooms_not_negative s"
  shows "rooms_not_negative (snd (cancelBooking e u param reason s))"
  using assms
  by (auto simp: cancelBooking_def Let_def rooms_not_negative_def
      dest!: findBooking_Some split: option.splits)

lemma step_rooms: "rooms_not_negative s \<Longrightarrow> rooms_not_negative (step s x)"
  by (cases x) (simp_all add: createBooking_rooms updateBooking_rooms cancelBooking_rooms)

lemma run_rooms: "rooms_not_negative s \<Longrightarrow> rooms_not_negative (run ops s)"
  unfolding run_def
  by (induction ops arbitrary: s) (simp_all add: step_rooms)

lemma db_one_invariant: "hotel_invariant db_one"
  by (simp add: hotel_invariant_def db_one_def hotel0_def)

lemma grow_then_cancel_rooms:
  "map_option availableRooms (hotels (run grow_then_cancel db_one) 1) = Some 11"
  "map_option totalRooms (hotels (run grow_then_cancel db_one) 1) = Some 10"
  by code_simp+

lemma grow_then_cancel_served:
  "res_status (fst (updateBooking env0 alice (Some 1) two_rooms db_one)) = 200"
  "res_status (fst (cancelBooking env0 alice (Some 1) None
      (snd (updateBooking env0 alice (Some 1) two_rooms db_one)))) = 200"
  by code_simp+

text \<open>
  C4, as stated, fails in its upper bound. From a store in which the hotel has 9 of its
  10 rooms available and a pending booking holds the tenth: an update of that booking to
  two rooms (answered 200; the hotel is not touched), then its cancellation (which gives
  back the booking's two rooms) leave \<open>availableRooms = 11 > totalRooms = 10\<close>.
\<close>

theorem cancel_after_update_exceeds_totalRooms:
  "hotel_invariant db_one
   \<and> res_status (fst (updateBooking env0 alice (Some 1) two_rooms db_one)) = 200
   \<and> res_status (fst (cancelBooking env0 alice (Some 1) None
         (snd (updateBooking env0 alice (Some 1) two_rooms db_one)))) = 200
   \<and> map_option availableRooms (hotels (run grow_then_cancel db_one) 1) = Some 11
   \<and> map_option totalRooms (hotels (run grow_then_cancel db_one) 1) = Some 10
   \<and> \<not> hotel_invariant (run grow_then_cancel db_one)"
proof -
  obtain h where h: "hotels (run grow_then_cancel db_one) 1 = Some h"
    and a: "availableRooms h = 11" and t: "totalRooms h = 10"
    using grow_then_cancel_rooms by auto
  have "\<not> (availableRooms h \<le> totalRooms h)"
    by (simp add: a t)
  with h have "\<not> hotel_invariant (run grow_then_cancel db_one)"
    unfolding hotel_invariant_def by blast
  with db_one_invariant grow_then_cancel_served grow_then_cancel_rooms show ?thesis
    by (intro conjI)
qed

text \<open>
  C4, amended. From a state in which no hotel has a negative \<open>availableRooms\<close> and no
  booking a negative \<open>numberOfRooms\<close>, every state reached by a sequence of
  create-booking, update-booking and cancel-booking operations, run one after another,
  has \<open>0 \<le> availableRooms\<close> for every hotel. (The bound by \<open>totalRooms\<close> is not kept.)
\<close>

theorem availableRooms_not_negative:
  assumes "rooms_not_negative s"
    and "hotels (run ops s) k = Some h"
  shows "0 \<le> availableRooms h"
proof -
  have "rooms_not_negative (run ops s)"
    using assms(1) by (rule run_rooms)
  with assms(2) show ?thesis
    unfolding rooms_not_negative_def by blast
qed

theorem availableRooms_not_negative_witness:
  "rooms_not_negative db_one
   \<and> hotels (run grow_then_cancel db_one) 1 = Some (hotel0\<lparr>availableRooms := 11\<rparr>)
   \<and> (0::int) \<le> availableRooms (hotel0\<lparr>availableRooms := 11\<rparr>)"
proof -
  have i: "rooms_not_negative db_one"
    by (simp add: rooms_not_negative_def db_one_def hotel0_def booking0_def)
  have r: "hotels (run grow_then_cancel db_one) 1 = Some (hotel0\<lparr>availableRooms := 11\<rparr>)"
    by code_simp
  from availableRooms_not_negative [OF i r] i r show ?thesis
    by (intro conjI)
qed

section \<open>Registering a user\<close>















end
